theory Spec2Isabelle
  imports Complex_Main "HOL-Library.Product_Lexorder" "HOL-Library.Log_Nat"
begin

section \<open>Data model\<close>

text \<open>
  The three collections of the feedback platform. A feedback document has the paths that
  its Mongoose schema declares and the three that Mongoose adds to them: the timestamps
  \<open>createdAt\<close> and \<open>updatedAt\<close> of the option \<open>timestamps: true\<close> (milliseconds
  since the epoch) and the version key \<open>__v\<close>, here \<open>versionKey\<close>. A user and a course
  have the paths that the administration routes below read and write. An ObjectId is a
  natural number; a collection is the list of its documents in store order; strings are
  lists of ASCII characters.

  A JavaScript number that holds an average is an IEEE 754 double, modelled as the real
  number it denotes; each arithmetic operation of the code rounds its exact result to the
  nearest double (\<open>fl\<close> below).

  A route is a function of the collections it reads, the identifier of the authenticated
  caller (\<open>req.user.id\<close>, as the \<open>protect\<close> middleware supplies it) and the request;
  it returns the response and the collection it writes. The \<open>populate\<close> calls, which
  only decorate a response, and failures of the storage itself are not modelled.
\<close>

type_synonym oid = nat

datatype status = Pending | Approved | Rejected

record feedback =
  fid :: oid
  student :: oid
  course :: oid
  rating :: int
  message :: string
  isAnonymous :: bool
  tags :: "string list"
  status :: status
  moderatorNotes :: "string option"
  createdAt :: int
  updatedAt :: int
  versionKey :: nat

datatype role = Student | Admin

record user =
  uid :: oid
  role :: role
  isBlocked :: bool

record courseDoc =
  cid :: oid
  name :: string
  code :: string
  isActive :: bool

section \<open>Store queries\<close>

text \<open>
  \<open>findById\<close>, the write of a saved document and \<open>findByIdAndDelete\<close> address one
  document through its \<open>_id\<close>: the first one of the collection that carries it.
\<close>

definition findById :: "('a \<Rightarrow> oid) \<Rightarrow> 'a list \<Rightarrow> oid \<Rightarrow> 'a option" where
  "findById key ds i = find (\<lambda>d. key d = i) ds"

fun replaceBy :: "('a \<Rightarrow> oid) \<Rightarrow> 'a \<Rightarrow> 'a list \<Rightarrow> 'a list" where
  "replaceBy key d [] = []"
| "replaceBy key d (e # es) = (if key e = key d then d # es else e # replaceBy key d es)"

fun deleteBy :: "('a \<Rightarrow> oid) \<Rightarrow> oid \<Rightarrow> 'a list \<Rightarrow> 'a list" where
  "deleteBy key i [] = []"
| "deleteBy key i (e # es) = (if key e = i then es else e # deleteBy key i es)"

text \<open>\<open>Feedback.countDocuments({ course: id })\<close>.\<close>

definition countByCourse :: "feedback list \<Rightarrow> oid \<Rightarrow> nat" where
  "countByCourse fs c = length (filter (\<lambda>f. course f = c) fs)"

text \<open>\<open>Feedback.findOne({ student, course })\<close>.\<close>

definition findOneByPair :: "feedback list \<Rightarrow> oid \<Rightarrow> oid \<Rightarrow> feedback option" where
  "findOneByPair fs s c = find (\<lambda>f. student f = s \<and> course f = c) fs"

section \<open>Strings\<close>

text \<open>
  Template literals and \<open>$toString\<close> print a count in decimal. \<open>digitChar\<close> is
  applied to digits below 10 only.
\<close>

definition digitChar :: "nat \<Rightarrow> char" where
  "digitChar d = ''0123456789'' ! d"

fun toString :: "nat \<Rightarrow> string" where
  "toString n =
     (if n < 10 then [digitChar n] else toString (n div 10) @ [digitChar (n mod 10)])"

declare toString.simps [simp del]

text \<open>Reading a decimal numeral back, to state that \<open>toString\<close> loses nothing.\<close>

definition digitVal :: "char \<Rightarrow> nat" where
  "digitVal c = of_char c - 48"

definition parseNat :: "string \<Rightarrow> nat" where
  "parseNat s = foldl (\<lambda>a c. 10 * a + digitVal c) 0 s"

definition isSpace :: "char \<Rightarrow> bool" where
  "isSpace c = (c \<in> set [CHR '' '', CHR 0x09, CHR 0x0A, CHR 0x0B, CHR 0x0C, CHR 0x0D])"

text \<open>\<open>String.prototype.trim\<close>, on ASCII white space.\<close>

definition trim :: "string \<Rightarrow> string" where
  "trim s = rev (dropWhile isSpace (rev (dropWhile isSpace s)))"

definition toLowerChar :: "char \<Rightarrow> char" where
  "toLowerChar c =
     (case map_of (zip ''ABCDEFGHIJKLMNOPQRSTUVWXYZ'' ''abcdefghijklmnopqrstuvwxyz'') c of
        None \<Rightarrow> c
      | Some l \<Rightarrow> l)"

text \<open>The setters \<open>trim: true, lowercase: true\<close> of the elements of \<open>tags\<close>.\<close>

definition tagSetter :: "string \<Rightarrow> string" where
  "tagSetter t = map toLowerChar (trim t)"

section \<open>Statistics engine\<close>

record statistics =
  totalFeedback :: nat
  averageRating :: real
  ratingDistribution :: "int \<rightharpoonup> nat"

text \<open>Rounding to the nearest integer, a tie going to the even one.\<close>

definition halfEven :: "real \<Rightarrow> int" where
  "halfEven y =
     (let f = \<lfloor>y\<rfloor>; d = y - real_of_int f
      in if d < 1 / 2 then f else if 1 / 2 < d then f + 1 else if even f then f else f + 1)"

definition pow2 :: "int \<Rightarrow> real" where
  "pow2 e = (if 0 \<le> e then 2 ^ nat e else 1 / 2 ^ nat (- e))"

text \<open>
  The binary exponent of a positive number \<open>x\<close>: the \<open>e\<close> with
  \<open>pow2 e \<le> x < pow2 (e + 1)\<close>.
\<close>

definition expo :: "real \<Rightarrow> int" where
  "expo x = (if 1 \<le> x then bitlen \<lfloor>x\<rfloor> - 1 else - bitlen (\<lceil>1 / x\<rceil> - 1))"

text \<open>
  The double nearest to a real number: its significand is rounded to 53 bits, a tie going
  to the even significand. The exponent is unbounded here; the doubles have exponents from
  -1022 to 1023, which the averages of ratings and their hundredfold stay far inside.
\<close>

definition fl :: "real \<Rightarrow> real" where
  "fl x =
     (if x = 0 then 0
      else let u = pow2 (expo \<bar>x\<bar> - 52)
           in sgn x * real_of_int (halfEven (\<bar>x\<bar> / u)) * u)"

text \<open>\<open>Math.round\<close>: the nearest integer, a tie going up.\<close>

definition mathRound :: "real \<Rightarrow> int" where
  "mathRound x = \<lfloor>x + 1 / 2\<rfloor>"

text \<open>\<open>Math.round(avg * 100) / 100\<close> on a double: the product and the quotient round.\<close>

definition round2 :: "real \<Rightarrow> real" where
  "round2 x = fl (real_of_int (mathRound (fl (x * 100))) / 100)"

text \<open>
  The accumulator \<open>$avg\<close> of a non-empty group: the sum of the ratings, which are
  integers, divided by their number, as a double.
\<close>

definition avg :: "int list \<Rightarrow> real" where
  "avg rs = fl (real_of_int (sum_list rs) / real (length rs))"

text \<open>The mean of the ratings as a rational number, for comparison.\<close>

definition exactMean :: "int list \<Rightarrow> real" where
  "exactMean rs = real_of_int (sum_list rs) / real (length rs)"

text \<open>The literal \<open>{ 1: 0, 2: 0, 3: 0, 4: 0, 5: 0 }\<close>.\<close>

definition emptyDist :: "int \<rightharpoonup> nat" where
  "emptyDist = [1 \<mapsto> 0, 2 \<mapsto> 0, 3 \<mapsto> 0, 4 \<mapsto> 0, 5 \<mapsto> 0]"

text \<open>\<open>ratingDist[rating] = (ratingDist[rating] || 0) + 1\<close>.\<close>

definition bumpRating :: "int \<Rightarrow> (int \<rightharpoonup> nat) \<Rightarrow> (int \<rightharpoonup> nat)" where
  "bumpRating r d = d(r \<mapsto> (case d r of None \<Rightarrow> 0 | Some n \<Rightarrow> n) + 1)"

text \<open>The \<open>forEach\<close> over the pushed ratings.\<close>

definition buildDist :: "int list \<Rightarrow> (int \<rightharpoonup> nat)" where
  "buildDist rs = fold bumpRating rs emptyDist"

definition zeroStatistics :: statistics where
  "zeroStatistics = \<lparr>totalFeedback = 0, averageRating = 0, ratingDistribution = emptyDist\<rparr>"

text \<open>
  What both statistics methods do with the documents that their \<open>$match\<close> stage kept:
  the \<open>$group\<close> stage yields no row for an empty input, and otherwise one row with the
  count, the mean and the pushed ratings.
\<close>

definition summarise :: "feedback list \<Rightarrow> statistics" where
  "summarise matched =
     (if matched = [] then zeroStatistics
      else \<lparr>totalFeedback = length matched,
            averageRating = round2 (avg (map rating matched)),
            ratingDistribution = buildDist (map rating matched)\<rparr>)"

text \<open>\<open>Feedback.getCourseStatistics(courseId)\<close>, with its match on course and status.\<close>

definition getCourseStatistics :: "feedback list \<Rightarrow> oid \<Rightarrow> statistics" where
  "getCourseStatistics fs c =
     summarise (filter (\<lambda>f. course f = c \<and> status f = Approved) fs)"

text \<open>\<open>course.getStatistics()\<close> of the Course model, with its match on course alone.\<close>

definition getStatistics :: "feedback list \<Rightarrow> courseDoc \<Rightarrow> statistics" where
  "getStatistics fs c = summarise (filter (\<lambda>f. course f = cid c) fs)"

section \<open>Responses\<close>

text \<open>An error response: the HTTP status and the message of the JSON body.\<close>

datatype failure = Failure nat string

text \<open>\<open>GET /api/feedback/course/:courseId/stats\<close>.\<close>

definition courseStatsRoute :: "courseDoc list \<Rightarrow> feedback list \<Rightarrow> oid \<Rightarrow> failure + statistics" where
  "courseStatsRoute cs fs c =
     (case findById cid cs c of
        None \<Rightarrow> Inl (Failure 404 ''Course not found'')
      | Some _ \<Rightarrow> Inr (getCourseStatistics fs c))"

text \<open>\<open>GET /api/courses/:id\<close>, reduced to the statistics it attaches to the course.\<close>

definition getCourseRoute :: "courseDoc list \<Rightarrow> feedback list \<Rightarrow> oid \<Rightarrow> failure + statistics" where
  "getCourseRoute cs fs c =
     (case findById cid cs c of
        None \<Rightarrow> Inl (Failure 404 ''Course not found'')
      | Some d \<Rightarrow> Inr (getStatistics fs d))"

section \<open>Monthly trends\<close>

record trend =
  t_month :: string
  t_count :: nat
  t_averageRating :: real

text \<open>
  The operator \<open>$round\<close> to two places: the database rounds a tie to the even digit and
  returns a double.
\<close>

definition mongoRound2 :: "real \<Rightarrow> real" where
  "mongoRound2 x = fl (real_of_int (halfEven (x * 100)) / 100)"

text \<open>The \<open>$project\<close> stage builds the label \<open>YYYY-MM\<close> from the group key.\<close>

definition monthLabel :: "nat \<times> nat \<Rightarrow> string" where
  "monthLabel k =
     toString (fst k) @ ''-'' @
     (if snd k < 10 then ''0'' @ toString (snd k) else toString (snd k))"

text \<open>
  The \<open>monthlyTrends\<close> pipeline of \<open>GET /api/admin/dashboard\<close>: match on
  \<open>createdAt \<ge> sixMonthsAgo\<close>, group by year and month, sort by the key, project.
  The calendar operators \<open>$year\<close> and \<open>$month\<close> of the database and the instant
  \<open>sixMonthsAgo\<close> read from the clock are parameters.
\<close>

definition monthlyTrends ::
  "(int \<Rightarrow> nat) \<Rightarrow> (int \<Rightarrow> nat) \<Rightarrow> int \<Rightarrow> feedback list \<Rightarrow> trend list" where
  "monthlyTrends yearOf monthOf sixMonthsAgo fs =
     (let key = (\<lambda>f. (yearOf (createdAt f), monthOf (createdAt f)));
          matched = filter (\<lambda>f. sixMonthsAgo \<le> createdAt f) fs
      in map (\<lambda>k. let grp = filter (\<lambda>f. key f = k) matched
                   in \<lparr>t_month = monthLabel k, t_count = length grp,
                       t_averageRating = mongoRound2 (avg (map rating grp))\<rparr>)
             (sort (remdups (map key matched))))"

section \<open>Saving a feedback document\<close>

definition pushIfMissing :: "string \<Rightarrow> string list \<Rightarrow> string list" where
  "pushIfMissing t ts = (if t \<in> set ts then ts else ts @ [t])"

text \<open>
  The \<open>pre('save')\<close> hook of the Feedback schema. \<open>isNew\<close> and \<open>ratingModified\<close> are
  the document's \<open>isNew\<close> flag and \<open>isModified('rating')\<close>.
\<close>

definition preSave :: "bool \<Rightarrow> bool \<Rightarrow> feedback \<Rightarrow> feedback" where
  "preSave isNew ratingModified f =
     (if ratingModified \<or> isNew then
        (if 4 \<le> rating f then f\<lparr>tags := pushIfMissing ''positive'' (tags f)\<rparr>
         else if rating f \<le> 2 then f\<lparr>tags := pushIfMissing ''needs-improvement'' (tags f)\<rparr>
         else f\<lparr>tags := pushIfMissing ''neutral'' (tags f)\<rparr>)
      else f)"

text \<open>The sentiment tag as the specification words it.\<close>

definition specSentiment :: "int \<Rightarrow> string" where
  "specSentiment r =
     (if r \<ge> 4 then ''positive'' else if r \<le> 2 then ''needs-improvement'' else ''neutral'')"

text \<open>The validators of the Feedback schema, which run before the hook on every save.\<close>

definition schemaValid :: "feedback \<Rightarrow> bool" where
  "schemaValid f =
     (1 \<le> rating f \<and> rating f \<le> 5 \<and>
      10 \<le> length (message f) \<and> length (message f) \<le> 1000 \<and>
      list_all (\<lambda>t. length t \<le> 50) (tags f))"

datatype storeError = ValidationError | DuplicateKey

text \<open>
  \<open>Feedback.create\<close>: validation, the hook, then the insert, which the unique indexes
  on \<open>_id\<close> and on \<open>(student, course)\<close> reject with error code 11000. The document
  it is given carries the timestamps and the version key of a new document.
\<close>

definition createFeedback :: "feedback list \<Rightarrow> feedback \<Rightarrow> storeError + feedback \<times> feedback list" where
  "createFeedback fs f =
     (if \<not> schemaValid f then Inl ValidationError
      else let g = preSave True False f
           in if list_ex (\<lambda>h. fid h = fid g \<or> (student h = student g \<and> course h = course g)) fs
              then Inl DuplicateKey
              else Inr (g, fs @ [g]))"

text \<open>
  \<open>isModified()\<close> of a document \<open>f\<close> that was loaded as \<open>f0\<close>: an assignment marks a
  path as modified when it changes the value of the path.
\<close>

definition isModified :: "feedback \<Rightarrow> feedback \<Rightarrow> bool" where
  "isModified f0 f =
     (rating f \<noteq> rating f0 \<or> message f \<noteq> message f0 \<or> isAnonymous f \<noteq> isAnonymous f0 \<or>
      tags f \<noteq> tags f0)"

text \<open>
  \<open>feedback.save()\<close> at time \<open>now\<close> on a document \<open>f\<close> that was loaded as \<open>f0\<close>. The
  validators run first; the hook of \<open>timestamps: true\<close> sets \<open>updatedAt\<close> when the
  document is modified; the hook of the schema adds the sentiment tag; the write
  increments the version key when it writes the array \<open>tags\<close> (the request has assigned
  a different array, or the hook has pushed a tag).
\<close>

definition saveFeedback ::
  "feedback list \<Rightarrow> int \<Rightarrow> feedback \<Rightarrow> feedback \<Rightarrow> storeError + feedback \<times> feedback list" where
  "saveFeedback fs now f0 f =
     (if \<not> schemaValid f then Inl ValidationError
      else let f1 = (if isModified f0 f then f\<lparr>updatedAt := now\<rparr> else f);
               f2 = preSave False (rating f \<noteq> rating f0) f1;
               g = (if tags f \<noteq> tags f0 \<or> tags f2 \<noteq> tags f
                    then f2\<lparr>versionKey := versionKey f2 + 1\<rparr> else f2)
           in Inr (g, replaceBy fid g fs))"

section \<open>Feedback routes\<close>

text \<open>
  A request body after JSON parsing, each field absent (\<open>None\<close>) or present with a value
  of the type its validator accepts. A body may also name a student or a status; no
  feedback route reads them.
\<close>

record feedbackBody =
  b_course :: "oid option"
  b_rating :: "int option"
  b_message :: "string option"
  b_isAnonymous :: "bool option"
  b_tags :: "string list option"
  b_student :: "oid option"
  b_status :: "status option"

text \<open>The length check \<open>isLength({ min: 10, max: 1000 })\<close> after the sanitizer \<open>trim()\<close>.\<close>

definition messageOk :: "string \<Rightarrow> bool" where
  "messageOk m = (10 \<le> length (trim m) \<and> length (trim m) \<le> 1000)"

definition ratingOk :: "int \<Rightarrow> bool" where
  "ratingOk r = (1 \<le> r \<and> r \<le> 5)"

text \<open>
  The validator chain of \<open>POST /api/feedback\<close>; it yields the course, the rating and
  the trimmed message when \<open>validationResult\<close> holds no error.
\<close>

definition validateSubmit :: "feedbackBody \<Rightarrow> (oid \<times> int \<times> string) option" where
  "validateSubmit body =
     (case (b_course body, b_rating body, b_message body) of
        (Some c, Some r, Some m) \<Rightarrow>
          if ratingOk r \<and> messageOk m then Some (c, r, trim m) else None
      | _ \<Rightarrow> None)"

definition duplicateFailure :: failure where
  "duplicateFailure = Failure 400 ''You have already submitted feedback for this course''"

text \<open>
  \<open>POST /api/feedback\<close> for the authenticated student \<open>reqUser\<close>. The identifier of the
  new document and the time of the request come from the driver and the clock; a new
  document has both timestamps at that time and the version key 0.
\<close>

definition submitFeedback ::
  "courseDoc list \<Rightarrow> feedback list \<Rightarrow> oid \<Rightarrow> oid \<Rightarrow> int \<Rightarrow> feedbackBody
     \<Rightarrow> (failure + feedback) \<times> feedback list" where
  "submitFeedback cs fs reqUser newId now body =
     (case validateSubmit body of
        None \<Rightarrow> (Inl (Failure 400 ''Validation failed''), fs)
      | Some (c, r, m) \<Rightarrow>
          (case findById cid cs c of
             None \<Rightarrow> (Inl (Failure 404 ''Course not found''), fs)
           | Some d \<Rightarrow>
               if \<not> isActive d
               then (Inl (Failure 400 ''Cannot submit feedback for inactive course''), fs)
               else if findOneByPair fs reqUser c \<noteq> None then (Inl duplicateFailure, fs)
               else
                 (case createFeedback fs
                    \<lparr>fid = newId, student = reqUser, course = c, rating = r, message = m,
                     isAnonymous = (case b_isAnonymous body of None \<Rightarrow> False | Some a \<Rightarrow> a),
                     tags = map tagSetter (case b_tags body of None \<Rightarrow> [] | Some ts \<Rightarrow> ts),
                     status = Approved, moderatorNotes = None, createdAt = now,
                     updatedAt = now, versionKey = 0\<rparr> of
                    Inl DuplicateKey \<Rightarrow> (Inl duplicateFailure, fs)
                  | Inl ValidationError \<Rightarrow> (Inl (Failure 500 ''Server error''), fs)
                  | Inr (g, fs') \<Rightarrow> (Inr g, fs'))))"

text \<open>The validator chain of \<open>PUT /api/feedback/:id\<close>, every field optional.\<close>

definition updateValid :: "feedbackBody \<Rightarrow> bool" where
  "updateValid body =
     ((case b_rating body of None \<Rightarrow> True | Some r \<Rightarrow> ratingOk r) \<and>
      (case b_message body of None \<Rightarrow> True | Some m \<Rightarrow> messageOk m))"

text \<open>
  The field update block: \<open>if (rating)\<close> and \<open>if (message)\<close> test truthiness,
  \<open>isAnonymous\<close> is compared with \<open>undefined\<close>, an array of tags is always truthy.
\<close>

definition applyBody :: "feedbackBody \<Rightarrow> feedback \<Rightarrow> feedback" where
  "applyBody body f =
     (let f1 = (case b_rating body of
                  Some r \<Rightarrow> if r \<noteq> 0 then f\<lparr>rating := r\<rparr> else f | None \<Rightarrow> f);
          f2 = (case b_message body of
                  Some m \<Rightarrow> if trim m \<noteq> [] then f1\<lparr>message := trim m\<rparr> else f1 | None \<Rightarrow> f1);
          f3 = (case b_isAnonymous body of
                  Some a \<Rightarrow> f2\<lparr>isAnonymous := a\<rparr> | None \<Rightarrow> f2)
      in (case b_tags body of
            Some ts \<Rightarrow> f3\<lparr>tags := map tagSetter ts\<rparr> | None \<Rightarrow> f3))"

text \<open>\<open>PUT /api/feedback/:id\<close> for the authenticated student \<open>reqUser\<close>, at time \<open>now\<close>.\<close>

definition updateFeedback ::
  "feedback list \<Rightarrow> oid \<Rightarrow> oid \<Rightarrow> int \<Rightarrow> feedbackBody
     \<Rightarrow> (failure + feedback) \<times> feedback list" where
  "updateFeedback fs reqUser i now body =
     (if \<not> updateValid body then (Inl (Failure 400 ''Validation failed''), fs)
      else
        (case findById fid fs i of
           None \<Rightarrow> (Inl (Failure 404 ''Feedback not found''), fs)
         | Some f \<Rightarrow>
             if student f \<noteq> reqUser
             then (Inl (Failure 403 ''Not authorized to update this feedback''), fs)
             else
               (case saveFeedback fs now f (applyBody body f) of
                  Inl _ \<Rightarrow> (Inl (Failure 500 ''Server error''), fs)
                | Inr (g, fs') \<Rightarrow> (Inr g, fs'))))"

text \<open>\<open>DELETE /api/feedback/:id\<close> for the authenticated student \<open>reqUser\<close>.\<close>

definition deleteFeedback ::
  "feedback list \<Rightarrow> oid \<Rightarrow> oid \<Rightarrow> (failure + string) \<times> feedback list" where
  "deleteFeedback fs reqUser i =
     (case findById fid fs i of
        None \<Rightarrow> (Inl (Failure 404 ''Feedback not found''), fs)
      | Some f \<Rightarrow>
          if student f \<noteq> reqUser
          then (Inl (Failure 403 ''Not authorized to delete this feedback''), fs)
          else (Inr ''Feedback deleted successfully'', deleteBy fid i fs))"

section \<open>Course and user administration\<close>

text \<open>\<open>DELETE /api/courses/:id\<close>.\<close>

definition deleteCourse ::
  "courseDoc list \<Rightarrow> feedback list \<Rightarrow> oid \<Rightarrow> (failure + string) \<times> courseDoc list" where
  "deleteCourse cs fs i =
     (case findById cid cs i of
        None \<Rightarrow> (Inl (Failure 404 ''Course not found''), cs)
      | Some c \<Rightarrow>
          (let feedbackCount = countByCourse fs (cid c)
           in if 0 < feedbackCount
              then (Inl (Failure 400 (''Cannot delete course. It has '' @ toString feedbackCount @
                           '' feedback entries. Consider deactivating instead.'')), cs)
              else (Inr ''Course deleted successfully'', deleteBy cid i cs)))"

text \<open>\<open>PATCH /api/courses/:id/toggle-active\<close>; the response carries the saved course.\<close>

definition toggleActive :: "courseDoc list \<Rightarrow> oid \<Rightarrow> (failure + courseDoc) \<times> courseDoc list" where
  "toggleActive cs i =
     (case findById cid cs i of
        None \<Rightarrow> (Inl (Failure 404 ''Course not found''), cs)
      | Some c \<Rightarrow>
          (let c' = c\<lparr>isActive := \<not> isActive c\<rparr> in (Inr c', replaceBy cid c' cs)))"

text \<open>\<open>PATCH /api/admin/students/:id/toggle-block\<close> for the authenticated admin \<open>reqUser\<close>.\<close>

definition toggleBlock :: "user list \<Rightarrow> oid \<Rightarrow> oid \<Rightarrow> (failure + user) \<times> user list" where
  "toggleBlock us reqUser i =
     (case findById uid us i of
        None \<Rightarrow> (Inl (Failure 404 ''Student not found''), us)
      | Some s \<Rightarrow>
          if role s \<noteq> Student then (Inl (Failure 400 ''Can only block/unblock students''), us)
          else if uid s = reqUser then (Inl (Failure 400 ''Cannot block yourself''), us)
          else (let s' = s\<lparr>isBlocked := \<not> isBlocked s\<rparr> in (Inr s', replaceBy uid s' us)))"

section \<open>The uniqueness invariant\<close>

text \<open>
  The unique index \<open>{ student: 1, course: 1 }\<close> as a property of the collection: no two
  documents carry the same pair.
\<close>

definition pairOf :: "feedback \<Rightarrow> oid \<times> oid" where
  "pairOf f = (student f, course f)"

definition uniquePairs :: "feedback list \<Rightarrow> bool" where
  "uniquePairs fs = distinct (map pairOf fs)"

section \<open>Example data\<close>

definition exCourse :: courseDoc where
  "exCourse = \<lparr>cid = 1, name = ''Operating Systems'', code = ''CS301'', isActive = True\<rparr>"

definition exFeedback :: "oid \<Rightarrow> oid \<Rightarrow> int \<Rightarrow> status \<Rightarrow> feedback" where
  "exFeedback i s r st =
     \<lparr>fid = i, student = s, course = 1, rating = r, message = ''Well-structured syllabus.'',
      isAnonymous = False, tags = [], status = st, moderatorNotes = None, createdAt = 0,
      updatedAt = 0, versionKey = 0\<rparr>"

definition exStore :: "feedback list" where
  "exStore =
     [exFeedback 10 2 5 Approved, exFeedback 11 3 5 Approved, exFeedback 12 4 2 Pending,
      exFeedback 13 5 4 Approved, exFeedback 14 6 3 Approved,
      (exFeedback 15 2 2 Approved)\<lparr>course := 7\<rparr>, exFeedback 16 7 1 Approved]"

definition exUsers :: "user list" where
  "exUsers =
     [\<lparr>uid = 1, role = Admin, isBlocked = False\<rparr>, \<lparr>uid = 2, role = Student, isBlocked = False\<rparr>,
      \<lparr>uid = 3, role = Student, isBlocked = True\<rparr>]"

definition exBody :: feedbackBody where
  "exBody =
     \<lparr>b_course = Some 1, b_rating = Some 1, b_message = Some ''  Needed more lab sessions.  '',
      b_isAnonymous = None, b_tags = Some ['' Labs''], b_student = Some 7,
      b_status = Some Rejected\<rparr>"

definition exBadBody :: feedbackBody where
  "exBadBody =
     \<lparr>b_course = None, b_rating = Some 9, b_message = None, b_isAnonymous = None,
      b_tags = None, b_student = None, b_status = None\<rparr>"

text \<open>A toy calendar for examples, in which an instant counts months.\<close>

definition exYearOf :: "int \<Rightarrow> nat" where
  "exYearOf t = nat t div 12"

definition exMonthOf :: "int \<Rightarrow> nat" where
  "exMonthOf t = nat t mod 12 + 1"

definition exTimeline :: "feedback list" where
  "exTimeline =
     [(exFeedback 10 2 5 Approved)\<lparr>createdAt := 24290\<rparr>,
      (exFeedback 11 3 4 Approved)\<lparr>createdAt := 24292\<rparr>,
      (exFeedback 12 4 2 Pending)\<lparr>createdAt := 24290\<rparr>,
      (exFeedback 13 5 1 Approved)\<lparr>createdAt := 24280\<rparr>]"

section \<open>Properties of the store queries\<close>

lemma findById_key: "findById key ds i = Some d \<Longrightarrow> key d = i"
  by (auto simp: findById_def find_Some_iff)

lemma findById_mem: "findById key ds i = Some d \<Longrightarrow> d \<in> set ds"
  by (auto simp: findById_def find_Some_iff)

lemma findById_replaceBy_same:
  "findById key ds (key d) = Some e \<Longrightarrow> findById key (replaceBy key d ds) (key d) = Some d"
  by (induction ds) (auto simp: findById_def split: if_splits)

lemma findById_replaceBy_other:
  "j \<noteq> key d \<Longrightarrow> findById key (replaceBy key d ds) j = findById key ds j"
  by (induction ds) (auto simp: findById_def)

lemma replaceBy_undo:
  "findById key ds (key d) = Some d \<Longrightarrow> key d' = key d \<Longrightarrow>
   replaceBy key d (replaceBy key d' ds) = ds"
  by (induction ds) (auto simp: findById_def split: if_splits)

section \<open>Properties of the strings\<close>

lemma digitVal_digitChar: "d < 10 \<Longrightarrow> digitVal (digitChar d) = d"
proof -
  assume "d < 10"
  then have "d \<in> {0, 1, 2, 3, 4, 5, 6, 7, 8, 9}" by auto
  then show ?thesis by (auto simp: digitVal_def digitChar_def)
qed

lemma parseNat_toString: "parseNat (toString n) = n"
proof (induction n rule: toString.induct)
  case (1 n)
  show ?case
  proof (cases "n < 10")
    case True
    then show ?thesis by (simp add: toString.simps [of n] parseNat_def digitVal_digitChar)
  next
    case False
    with 1 have "parseNat (toString (n div 10)) = n div 10" by simp
    with False show ?thesis
      by (simp add: toString.simps [of n] parseNat_def digitVal_digitChar)
  qed
qed

text \<open>Two counts that print alike are the same count.\<close>

lemma toString_inj: "toString m = toString n \<Longrightarrow> m = n"
  by (metis parseNat_toString)

section \<open>Properties of the statistics engine\<close>

text \<open>Rounding to a double changes a number by at most the \<open>2 ^ 53\<close>-th part of it.\<close>

lemma halfEven_error: "\<bar>real_of_int (halfEven y) - y\<bar> \<le> 1 / 2"
proof -
  have "real_of_int \<lfloor>y\<rfloor> \<le> y" "y < real_of_int \<lfloor>y\<rfloor> + 1" by linarith+
  then show ?thesis by (auto simp: halfEven_def Let_def)
qed

lemma pow2_powi: "pow2 e = 2 powi e"
  by (simp add: pow2_def power_int_def field_simps)

lemma pow2_pos: "0 < pow2 e"
  by (simp add: pow2_def)

lemma pow2_shift: "pow2 (e - 52) = pow2 e / 2 ^ 52"
  by (simp add: pow2_powi power_int_diff)

lemma expo_lower:
  assumes "0 < x"
  shows "pow2 (expo x) \<le> x"
proof (cases "1 \<le> x")
  case True
  then have n: "0 < \<lfloor>x\<rfloor>" by linarith
  from bitlen_bounds [OF n] have b: "2 ^ nat (bitlen \<lfloor>x\<rfloor> - 1) \<le> \<lfloor>x\<rfloor>" ..
  have ge: "0 \<le> bitlen \<lfloor>x\<rfloor> - 1" using n by (simp add: bitlen_alt_def)
  have "real_of_int (2 ^ nat (bitlen \<lfloor>x\<rfloor> - 1)) \<le> real_of_int \<lfloor>x\<rfloor>"
    using b by (rule of_int_le_iff [THEN iffD2])
  also have "\<dots> \<le> x" by linarith
  finally show ?thesis using True ge by (simp add: expo_def pow2_def)
next
  case False
  define c where "c = \<lceil>1 / x\<rceil>"
  define j where "j = bitlen (c - 1)"
  from False assms have y: "1 < 1 / x" by simp
  then have c2: "2 \<le> c" unfolding c_def by linarith
  then have n: "0 < c - 1" by simp
  from bitlen_bounds [OF n] have "c - 1 < 2 ^ nat j" unfolding j_def ..
  then have "c \<le> 2 ^ nat j" by simp
  then have "real_of_int c \<le> 2 ^ nat j" by (metis of_int_le_iff of_int_numeral of_int_power)
  moreover have "1 / x \<le> real_of_int c" unfolding c_def by linarith
  ultimately have "1 / x \<le> 2 ^ nat j" by linarith
  then have "1 / 2 ^ nat j \<le> x" using assms
    by (simp add: field_simps)
  moreover have jpos: "0 < j" using n by (simp add: j_def bitlen_alt_def)
  ultimately show ?thesis using False by (simp add: expo_def pow2_def c_def j_def)
qed

lemma fl_error: "\<bar>fl x - x\<bar> \<le> \<bar>x\<bar> / 2 ^ 53"
proof (cases "x = 0")
  case True
  then show ?thesis by (simp add: fl_def)
next
  case False
  define a where "a = \<bar>x\<bar>"
  define u where "u = pow2 (expo a - 52)"
  have apos: "0 < a" using False by (simp add: a_def)
  have upos: "0 < u" by (simp add: u_def pow2_pos)
  have ua: "u * 2 ^ 52 \<le> a"
    using expo_lower [OF apos] by (simp add: u_def pow2_shift)
  have h: "\<bar>real_of_int (halfEven (a / u)) - a / u\<bar> \<le> 1 / 2" by (rule halfEven_error)
  have "real_of_int (halfEven (a / u)) * u - a = (real_of_int (halfEven (a / u)) - a / u) * u"
    using upos by (simp add: field_simps)
  then have "\<bar>real_of_int (halfEven (a / u)) * u - a\<bar> =
      \<bar>real_of_int (halfEven (a / u)) - a / u\<bar> * u"
    using upos by (simp add: abs_mult)
  also have "\<dots> \<le> 1 / 2 * u" using h upos by (intro mult_right_mono) simp_all
  also have "\<dots> \<le> a / 2 ^ 53" using ua by simp
  finally have e: "\<bar>real_of_int (halfEven (a / u)) * u - a\<bar> \<le> a / 2 ^ 53" .
  have "fl x = sgn x * (real_of_int (halfEven (a / u)) * u)"
    using False by (simp add: fl_def Let_def a_def u_def)
  moreover have "x = sgn x * a" by (simp add: a_def sgn_if)
  ultimately have "\<bar>fl x - x\<bar> = \<bar>sgn x * (real_of_int (halfEven (a / u)) * u - a)\<bar>"
    by (metis right_diff_distrib)
  also have "\<dots> = \<bar>real_of_int (halfEven (a / u)) * u - a\<bar>"
    using False by (simp add: abs_mult sgn_if)
  finally show ?thesis using e by (simp add: a_def)
qed

text \<open>
  The rounded average of a mean \<open>m\<close> is the double nearest to a whole number of hundredths,
  and that number is within half a hundredth of \<open>m\<close>, up to the rounding of the three
  double operations.
\<close>

lemma round2_two_places:
  "\<exists>k. round2 (fl m) = fl (real_of_int k / 100) \<and>
       \<bar>real_of_int k / 100 - m\<bar> \<le> 1 / 200 + \<bar>m\<bar> / 2 ^ 51"
proof -
  define a where "a = fl m"
  define b where "b = fl (a * 100)"
  define k where "k = mathRound b"
  have ea: "\<bar>a - m\<bar> \<le> \<bar>m\<bar> / 2 ^ 53" unfolding a_def by (rule fl_error)
  have eb: "\<bar>b - a * 100\<bar> \<le> \<bar>a * 100\<bar> / 2 ^ 53" unfolding b_def by (rule fl_error)
  have ek: "\<bar>real_of_int k - b\<bar> \<le> 1 / 2"
  proof -
    have "real_of_int \<lfloor>b + 1 / 2\<rfloor> \<le> b + 1 / 2" "b + 1 / 2 < real_of_int \<lfloor>b + 1 / 2\<rfloor> + 1"
      by linarith+
    then show ?thesis unfolding k_def mathRound_def by (intro abs_leI) linarith+
  qed
  have am: "\<bar>a\<bar> \<le> 2 * \<bar>m\<bar>"
  proof -
    have "\<bar>a\<bar> \<le> \<bar>m\<bar> + \<bar>a - m\<bar>" by linarith
    also have "\<dots> \<le> \<bar>m\<bar> + \<bar>m\<bar> / 2 ^ 53" using ea by simp
    also have "\<dots> \<le> 2 * \<bar>m\<bar>" by simp
    finally show ?thesis .
  qed
  have eb': "\<bar>b - a * 100\<bar> \<le> 200 * \<bar>m\<bar> / 2 ^ 53"
  proof -
    have "\<bar>a * 100\<bar> / 2 ^ 53 \<le> (200 * \<bar>m\<bar>) / 2 ^ 53"
      using am by (intro divide_right_mono) (simp_all add: abs_mult)
    with eb show ?thesis by linarith
  qed
  have "\<bar>real_of_int k - m * 100\<bar> \<le> \<bar>real_of_int k - b\<bar> + \<bar>b - a * 100\<bar> + 100 * \<bar>a - m\<bar>"
  proof -
    define p q r where "p = real_of_int k - b" and "q = b - a * 100" and "r = a - m"
    have "real_of_int k - m * 100 = p + q + 100 * r" by (simp add: p_def q_def r_def)
    moreover have "\<bar>p + q + 100 * r\<bar> \<le> \<bar>p\<bar> + \<bar>q\<bar> + 100 * \<bar>r\<bar>" by linarith
    ultimately show ?thesis by (simp add: p_def q_def r_def)
  qed
  also have "\<dots> \<le> 1 / 2 + 200 * \<bar>m\<bar> / 2 ^ 53 + 100 * (\<bar>m\<bar> / 2 ^ 53)"
    using ek eb' ea by linarith
  also have "\<dots> \<le> 1 / 2 + 100 * (\<bar>m\<bar> / 2 ^ 51)" by simp
  finally have "\<bar>real_of_int k - m * 100\<bar> \<le> 1 / 2 + 100 * (\<bar>m\<bar> / 2 ^ 51)" .
  then have "\<bar>real_of_int k - m * 100\<bar> / 100 \<le> (1 / 2 + 100 * (\<bar>m\<bar> / 2 ^ 51)) / 100"
    by (intro divide_right_mono) simp_all
  moreover have "\<bar>real_of_int k / 100 - m\<bar> = \<bar>real_of_int k - m * 100\<bar> / 100"
  proof -
    have "real_of_int k / 100 - m = (real_of_int k - m * 100) / 100" by simp
    then show ?thesis by (simp only: abs_divide)
  qed
  moreover have "(1 / 2 + 100 * (\<bar>m\<bar> / 2 ^ 51)) / 100 = 1 / 200 + \<bar>m\<bar> / 2 ^ 51" by simp
  ultimately have "\<bar>real_of_int k / 100 - m\<bar> \<le> 1 / 200 + \<bar>m\<bar> / 2 ^ 51" by linarith
  moreover have "round2 (fl m) = fl (real_of_int k / 100)"
    by (simp add: round2_def k_def b_def a_def)
  ultimately show ?thesis by blast
qed

text \<open>
  The double that the literal \<open>3.6\<close> denotes. The mean 41/40 of thirty-nine ratings 1 and
  one rating 2 shows the double arithmetic at work: its hundredfold is a double just below
  102.5, so the rounded average is 1.02.
\<close>

lemma fl_literal: "fl 3.6 = 8106479329266893 / 2251799813685248"
  by code_simp

lemma round2_below_tie: "round2 (avg (replicate 39 1 @ [2])) = fl 1.02"
  by code_simp

lemma dom_bumpRating: "dom (bumpRating r d) = insert r (dom d)"
  by (simp add: bumpRating_def)

lemma dom_fold_bumpRating: "dom (fold bumpRating rs d) = dom d \<union> set rs"
  by (induction rs arbitrary: d) (auto simp: dom_bumpRating)

lemma dom_emptyDist: "dom emptyDist = {1, 2, 3, 4, 5}"
  by (auto simp: emptyDist_def)

lemma dom_buildDist: "dom (buildDist rs) = {1, 2, 3, 4, 5} \<union> set rs"
  by (simp add: buildDist_def dom_fold_bumpRating dom_emptyDist)

text \<open>The distribution holds, for each of its keys, the number of ratings of that value.\<close>

lemma fold_bumpRating_count:
  "fold bumpRating rs d r =
     (if r \<in> dom d \<union> set rs
      then Some ((case d r of None \<Rightarrow> 0 | Some n \<Rightarrow> n) + count_list rs r) else None)"
proof (induction rs arbitrary: d)
  case Nil
  then show ?case by (auto simp: dom_def)
next
  case (Cons x xs)
  show ?case
    by (simp add: Cons.IH dom_bumpRating) (auto simp: bumpRating_def dom_def split: option.splits)
qed

lemma buildDist_count:
  "buildDist rs r =
     (if r \<in> {1, 2, 3, 4, 5} \<union> set rs then Some (count_list rs r) else None)"
  unfolding buildDist_def fold_bumpRating_count dom_emptyDist
  by (auto simp: emptyDist_def)

lemma dom_summarise: "{1, 2, 3, 4, 5} \<subseteq> dom (ratingDistribution (summarise fs))"
  by (simp add: summarise_def zeroStatistics_def dom_emptyDist dom_buildDist)

text \<open>
  \<open>Feedback.getCourseStatistics\<close> reads the approved documents only: removing every
  pending and rejected document from the collection leaves its result as it is.
\<close>

lemma getCourseStatistics_approved_only:
  "getCourseStatistics fs c = getCourseStatistics (filter (\<lambda>f. status f = Approved) fs) c"
  unfolding getCourseStatistics_def filter_filter
  by (rule arg_cong [where f = summarise], rule filter_cong) auto

text \<open>
  Claim C2, on \<open>course.getStatistics()\<close>, the method behind \<open>GET /api/courses/:id\<close>:
  for a course whose only feedback is pending it reports one feedback with average 3,
  where \<open>Feedback.getCourseStatistics\<close>, which matches on the status, reports none.
\<close>

theorem getStatistics_counts_pending:
  "getCourseRoute [exCourse] [exFeedback 10 2 3 Pending] 1 =
     Inr \<lparr>totalFeedback = 1, averageRating = 3,
          ratingDistribution = [1 \<mapsto> 0, 2 \<mapsto> 0, 3 \<mapsto> 1, 4 \<mapsto> 0, 5 \<mapsto> 0]\<rparr> \<and>
   courseStatsRoute [exCourse] [exFeedback 10 2 3 Pending] 1 =
     Inr \<lparr>totalFeedback = 0, averageRating = 0,
          ratingDistribution = [1 \<mapsto> 0, 2 \<mapsto> 0, 3 \<mapsto> 0, 4 \<mapsto> 0, 5 \<mapsto> 0]\<rparr>"
proof -
  have d: "buildDist [3] = [1 \<mapsto> 0, 2 \<mapsto> 0, 3 \<mapsto> 1, 4 \<mapsto> 0, 5 \<mapsto> 0]"
    by (rule ext) (simp add: buildDist_def bumpRating_def emptyDist_def)
  have a: "round2 (avg [3]) = 3"
    by code_simp
  show ?thesis
    using d a
    by (simp add: getCourseRoute_def courseStatsRoute_def getStatistics_def
        getCourseStatistics_def summarise_def zeroStatistics_def emptyDist_def findById_def
        exCourse_def exFeedback_def)
qed

text \<open>
  Claim C3. When the approved feedback of a course carries the ratings 5, 5, 4, 3, 1,
  \<open>Feedback.getCourseStatistics\<close> returns the average 3.6 (the double that this literal
  denotes), the distribution \<open>{1: 1, 2: 0, 3: 1, 4: 1, 5: 2}\<close> and the total 5. The
  average is rounded to two places: for every course with approved feedback it is the
  double nearest to a whole number of hundredths that lies within half a hundredth of the
  exact mean, up to the rounding of the double arithmetic.
\<close>

theorem courseStatistics_example:
  "(map rating (filter (\<lambda>f. course f = c \<and> status f = Approved) fs) = [5, 5, 4, 3, 1]
      \<longrightarrow> averageRating (getCourseStatistics fs c) = fl 3.6 \<and>
          ratingDistribution (getCourseStatistics fs c) =
            [1 \<mapsto> 1, 2 \<mapsto> 0, 3 \<mapsto> 1, 4 \<mapsto> 1, 5 \<mapsto> 2] \<and>
          totalFeedback (getCourseStatistics fs c) = 5) \<and>
   (filter (\<lambda>f. course f = c \<and> status f = Approved) fs \<noteq> []
      \<longrightarrow> (\<exists>k. averageRating (getCourseStatistics fs c) = fl (real_of_int k / 100) \<and>
               \<bar>real_of_int k / 100 -
                 exactMean (map rating (filter (\<lambda>f. course f = c \<and> status f = Approved) fs))\<bar>
               \<le> 1 / 200 +
                 \<bar>exactMean (map rating (filter (\<lambda>f. course f = c \<and> status f = Approved) fs))\<bar>
                   / 2 ^ 51))"
proof -
  let ?m = "filter (\<lambda>f. course f = c \<and> status f = Approved) fs"
  have inst: "averageRating (getCourseStatistics fs c) = fl 3.6 \<and>
          ratingDistribution (getCourseStatistics fs c) =
            [1 \<mapsto> 1, 2 \<mapsto> 0, 3 \<mapsto> 1, 4 \<mapsto> 1, 5 \<mapsto> 2] \<and>
          totalFeedback (getCourseStatistics fs c) = 5"
    if r: "map rating ?m = [5, 5, 4, 3, 1]"
  proof -
    have ne: "?m \<noteq> []" using r by auto
    have len: "length ?m = 5"
    proof -
      have "length (map rating ?m) = length [5::int, 5, 4, 3, 1]" using r by simp
      then show ?thesis by simp
    qed
    have a: "round2 (avg [5, 5, 4, 3, 1]) = fl 3.6"
      by code_simp
    have d: "buildDist [5, 5, 4, 3, 1] = [1 \<mapsto> 1, 2 \<mapsto> 0, 3 \<mapsto> 1, 4 \<mapsto> 1, 5 \<mapsto> 2]"
      by (rule ext) (simp add: buildDist_def bumpRating_def emptyDist_def)
    show ?thesis
      using ne len a d r by (simp add: getCourseStatistics_def summarise_def)
  qed
  have gen: "\<exists>k. averageRating (getCourseStatistics fs c) = fl (real_of_int k / 100) \<and>
               \<bar>real_of_int k / 100 - exactMean (map rating ?m)\<bar>
               \<le> 1 / 200 + \<bar>exactMean (map rating ?m)\<bar> / 2 ^ 51"
    if ne: "?m \<noteq> []"
  proof -
    have "averageRating (getCourseStatistics fs c) = round2 (fl (exactMean (map rating ?m)))"
      using ne by (simp add: getCourseStatistics_def summarise_def avg_def exactMean_def)
    then show ?thesis
      using round2_two_places [of "exactMean (map rating ?m)"] by simp
  qed
  from inst gen show ?thesis by blast
qed

theorem courseStatistics_example_witness:
  "map rating (filter (\<lambda>f. course f = 1 \<and> status f = Approved) exStore) = [5, 5, 4, 3, 1] \<and>
   averageRating (getCourseStatistics exStore 1) = fl 3.6 \<and>
   ratingDistribution (getCourseStatistics exStore 1) =
     [1 \<mapsto> 1, 2 \<mapsto> 0, 3 \<mapsto> 1, 4 \<mapsto> 1, 5 \<mapsto> 2] \<and>
   totalFeedback (getCourseStatistics exStore 1) = 5"
proof -
  have h: "map rating (filter (\<lambda>f. course f = 1 \<and> status f = Approved) exStore) = [5, 5, 4, 3, 1]"
    by (simp add: exStore_def exFeedback_def)
  show ?thesis using h courseStatistics_example [of 1 exStore] by simp
qed

text \<open>
  Claim C4. For an existing course without approved feedback the statistics route answers
  with the zeroed structure, not with an error; and whatever the collection holds, the
  rating distribution of \<open>Feedback.getCourseStatistics\<close> has the five keys 1 to 5.
\<close>

theorem courseStatistics_zero_default:
  "(findById cid cs c = Some d \<and> (\<forall>f \<in> set fs. course f = c \<longrightarrow> status f \<noteq> Approved)
      \<longrightarrow> courseStatsRoute cs fs c =
            Inr \<lparr>totalFeedback = 0, averageRating = 0,
                 ratingDistribution = [1 \<mapsto> 0, 2 \<mapsto> 0, 3 \<mapsto> 0, 4 \<mapsto> 0, 5 \<mapsto> 0]\<rparr>)
   \<and> {1, 2, 3, 4, 5} \<subseteq> dom (ratingDistribution (getCourseStatistics fs c))"
proof (intro conjI impI)
  assume a: "findById cid cs c = Some d \<and> (\<forall>f \<in> set fs. course f = c \<longrightarrow> status f \<noteq> Approved)"
  then have "filter (\<lambda>f. course f = c \<and> status f = Approved) fs = []"
    by (auto simp: filter_empty_conv)
  with a show "courseStatsRoute cs fs c =
            Inr \<lparr>totalFeedback = 0, averageRating = 0,
                 ratingDistribution = [1 \<mapsto> 0, 2 \<mapsto> 0, 3 \<mapsto> 0, 4 \<mapsto> 0, 5 \<mapsto> 0]\<rparr>"
    by (simp add: courseStatsRoute_def getCourseStatistics_def summarise_def zeroStatistics_def
        emptyDist_def)
next
  show "{1, 2, 3, 4, 5} \<subseteq> dom (ratingDistribution (getCourseStatistics fs c))"
    unfolding getCourseStatistics_def by (rule dom_summarise)
qed

theorem courseStatistics_zero_default_witness:
  "findById cid [exCourse] 1 = Some exCourse \<and>
   courseStatsRoute [exCourse] [exFeedback 10 2 3 Pending] 1 =
     Inr \<lparr>totalFeedback = 0, averageRating = 0,
          ratingDistribution = [1 \<mapsto> 0, 2 \<mapsto> 0, 3 \<mapsto> 0, 4 \<mapsto> 0, 5 \<mapsto> 0]\<rparr>"
  using courseStatistics_zero_default [of "[exCourse]" 1 exCourse "[exFeedback 10 2 3 Pending]"]
  by (simp add: findById_def exCourse_def exFeedback_def)

section \<open>Properties of the monthly trends\<close>

text \<open>
  Claim C5. Every entry of the monthly trends has a count of at least 1, and its label is
  the month of a feedback document inside the window: a month without feedback yields no
  entry.
\<close>

theorem monthlyTrends_counts_positive:
  "\<forall>e \<in> set (monthlyTrends yearOf monthOf sixMonthsAgo fs).
     1 \<le> t_count e \<and>
     (\<exists>f \<in> set fs. sixMonthsAgo \<le> createdAt f \<and>
        t_month e = monthLabel (yearOf (createdAt f), monthOf (createdAt f)))"
proof
  fix e assume "e \<in> set (monthlyTrends yearOf monthOf sixMonthsAgo fs)"
  let ?key = "\<lambda>f. (yearOf (createdAt f), monthOf (createdAt f))"
  let ?m = "filter (\<lambda>f. sixMonthsAgo \<le> createdAt f) fs"
  from \<open>e \<in> _\<close> obtain k where k: "k \<in> set (map ?key ?m)"
    and e: "e = \<lparr>t_month = monthLabel k, t_count = length (filter (\<lambda>f. ?key f = k) ?m),
                 t_averageRating = mongoRound2 (avg (map rating (filter (\<lambda>f. ?key f = k) ?m)))\<rparr>"
    by (auto simp: monthlyTrends_def Let_def)
  from k obtain f where f: "f \<in> set ?m" "?key f = k" by auto
  then have "filter (\<lambda>f. ?key f = k) ?m \<noteq> []" by (auto simp: filter_empty_conv)
  then have "1 \<le> length (filter (\<lambda>f. ?key f = k) ?m)" by (simp add: Suc_le_eq)
  with e f show "1 \<le> t_count e \<and>
     (\<exists>f \<in> set fs. sixMonthsAgo \<le> createdAt f \<and>
        t_month e = monthLabel (yearOf (createdAt f), monthOf (createdAt f)))"
    by auto
qed

theorem monthlyTrends_counts_positive_witness:
  "map t_month (monthlyTrends exYearOf exMonthOf 24286 exTimeline) = [''2024-03'', ''2024-05''] \<and>
   map t_count (monthlyTrends exYearOf exMonthOf 24286 exTimeline) = [2, 1] \<and>
   list_all (\<lambda>e. 1 \<le> t_count e) (monthlyTrends exYearOf exMonthOf 24286 exTimeline)"
proof -
  have l: "map t_month (monthlyTrends exYearOf exMonthOf 24286 exTimeline) = [''2024-03'', ''2024-05'']"
    by (simp add: monthlyTrends_def exTimeline_def exFeedback_def exYearOf_def exMonthOf_def
        monthLabel_def toString.simps digitChar_def Let_def)
  have c: "map t_count (monthlyTrends exYearOf exMonthOf 24286 exTimeline) = [2, 1]"
    by (simp add: monthlyTrends_def exTimeline_def exFeedback_def exYearOf_def exMonthOf_def
        Let_def)
  show ?thesis
    using l c monthlyTrends_counts_positive [of exYearOf exMonthOf 24286 exTimeline]
    by (simp add: list_all_iff)
qed

section \<open>Properties of the save hook\<close>

text \<open>
  Claim C9. On a save that creates the document or changes its rating, the hook appends
  the sentiment tag of the rating (\<open>positive\<close> from 4, \<open>needs-improvement\<close> up to 2,
  \<open>neutral\<close> otherwise) unless the tags hold it already; the tags present before the
  save all stay, in place, and no other field changes.
\<close>

theorem preSave_appends_sentiment:
  assumes "isNew \<or> ratingModified"
  shows "tags (preSave isNew ratingModified f) =
           tags f @ (if specSentiment (rating f) \<in> set (tags f) then []
                     else [specSentiment (rating f)]) \<and>
         (preSave isNew ratingModified f)\<lparr>tags := tags f\<rparr> = f"
  using assms by (auto simp: preSave_def specSentiment_def pushIfMissing_def)

theorem preSave_appends_sentiment_witness:
  "tags (preSave False True ((exFeedback 10 2 1 Approved)\<lparr>tags := [''positive'']\<rparr>)) =
     [''positive'', ''needs-improvement'']"
  using preSave_appends_sentiment [of False True "(exFeedback 10 2 1 Approved)\<lparr>tags := [''positive'']\<rparr>"]
  by (simp add: specSentiment_def exFeedback_def)

section \<open>Properties of course and user administration\<close>

text \<open>
  Claim C7. Deleting an existing course that \<open>n \<ge> 1\<close> feedback documents refer to fails
  with a message that prints \<open>n\<close>, and the courses are as before; toggling the same course
  succeeds and stores the course with its \<open>isActive\<close> flag flipped. The toggle does not
  read the feedback collection.
\<close>

theorem deleteCourse_guarded:
  assumes "findById cid cs i = Some c" and "countByCourse fs i = n" and "1 \<le> n"
  shows "deleteCourse cs fs i =
           (Inl (Failure 400 (''Cannot delete course. It has '' @ toString n @
                   '' feedback entries. Consider deactivating instead.'')), cs) \<and>
         toggleActive cs i =
           (Inr (c\<lparr>isActive := \<not> isActive c\<rparr>), replaceBy cid (c\<lparr>isActive := \<not> isActive c\<rparr>) cs) \<and>
         findById cid (snd (toggleActive cs i)) i = Some (c\<lparr>isActive := \<not> isActive c\<rparr>)"
proof -
  let ?t = "c\<lparr>isActive := \<not> isActive c\<rparr>"
  have k: "cid c = i" using assms(1) by (rule findById_key)
  have del: "deleteCourse cs fs i =
           (Inl (Failure 400 (''Cannot delete course. It has '' @ toString n @
                   '' feedback entries. Consider deactivating instead.'')), cs)"
    using assms k by (simp add: deleteCourse_def Let_def)
  have tog: "toggleActive cs i = (Inr ?t, replaceBy cid ?t cs)"
    using assms(1) by (simp add: toggleActive_def Let_def)
  have "findById cid cs (cid ?t) = Some c" using assms(1) k by simp
  then have "findById cid (replaceBy cid ?t cs) (cid ?t) = Some ?t"
    by (rule findById_replaceBy_same)
  then have "findById cid (replaceBy cid ?t cs) i = Some ?t" using k by simp
  then show ?thesis using del tog by simp
qed

theorem deleteCourse_guarded_witness:
  "findById cid [exCourse] 1 = Some exCourse \<and> countByCourse exStore 1 = 6 \<and>
   deleteCourse [exCourse] exStore 1 =
     (Inl (Failure 400
        ''Cannot delete course. It has 6 feedback entries. Consider deactivating instead.''),
      [exCourse]) \<and>
   toggleActive [exCourse] 1 =
     (Inr (exCourse\<lparr>isActive := False\<rparr>), [exCourse\<lparr>isActive := False\<rparr>])"
proof -
  have f: "findById cid [exCourse] 1 = Some exCourse"
    by (simp add: findById_def exCourse_def)
  have n: "countByCourse exStore 1 = 6"
    by (simp add: countByCourse_def exStore_def exFeedback_def)
  have a: "isActive exCourse" "cid exCourse = 1" by (simp_all add: exCourse_def)
  have s: "toString 6 = ''6''" by (simp add: toString.simps digitChar_def)
  show ?thesis using f n a s deleteCourse_guarded [OF f n] by simp
qed

text \<open>
  Claim C8. For an existing student other than the caller, one toggle-block stores the
  student with \<open>isBlocked\<close> flipped, and a second toggle gives back the original student
  and the original collection: two toggles are the identity.
\<close>

theorem toggleBlock_involution:
  assumes "findById uid us i = Some s" and "role s = Student" and "i \<noteq> reqUser"
  shows "toggleBlock us reqUser i =
           (Inr (s\<lparr>isBlocked := \<not> isBlocked s\<rparr>), replaceBy uid (s\<lparr>isBlocked := \<not> isBlocked s\<rparr>) us) \<and>
         findById uid (snd (toggleBlock us reqUser i)) i = Some (s\<lparr>isBlocked := \<not> isBlocked s\<rparr>) \<and>
         toggleBlock (snd (toggleBlock us reqUser i)) reqUser i = (Inr s, us)"
proof -
  let ?t = "s\<lparr>isBlocked := \<not> isBlocked s\<rparr>"
  have k: "uid s = i" using assms(1) by (rule findById_key)
  have one: "toggleBlock us reqUser i = (Inr ?t, replaceBy uid ?t us)"
    using assms k by (simp add: toggleBlock_def Let_def)
  have "findById uid us (uid ?t) = Some s" using assms(1) k by simp
  then have "findById uid (replaceBy uid ?t us) (uid ?t) = Some ?t"
    by (rule findById_replaceBy_same)
  then have found: "findById uid (replaceBy uid ?t us) i = Some ?t" using k by simp
  have undo: "replaceBy uid s (replaceBy uid ?t us) = us"
    using assms(1) k by (intro replaceBy_undo) simp_all
  have two: "toggleBlock (replaceBy uid ?t us) reqUser i = (Inr s, us)"
    using found assms k undo by (simp add: toggleBlock_def Let_def)
  show ?thesis using one found two by simp
qed

theorem toggleBlock_involution_witness:
  "findById uid exUsers 3 = Some \<lparr>uid = 3, role = Student, isBlocked = True\<rparr> \<and>
   toggleBlock exUsers 1 3 =
     (Inr \<lparr>uid = 3, role = Student, isBlocked = False\<rparr>,
      replaceBy uid \<lparr>uid = 3, role = Student, isBlocked = False\<rparr> exUsers) \<and>
   findById uid (snd (toggleBlock exUsers 1 3)) 3 = Some \<lparr>uid = 3, role = Student, isBlocked = False\<rparr> \<and>
   toggleBlock (snd (toggleBlock exUsers 1 3)) 1 3 =
     (Inr \<lparr>uid = 3, role = Student, isBlocked = True\<rparr>, exUsers)"
proof -
  have f: "findById uid exUsers 3 = Some \<lparr>uid = 3, role = Student, isBlocked = True\<rparr>"
    by (simp add: findById_def exUsers_def)
  show ?thesis
    using f toggleBlock_involution [OF f, of 1] by auto
qed

section \<open>Properties of the feedback routes\<close>

lemma preSave_frame: "(preSave isNew ratingModified f)\<lparr>tags := tags f\<rparr> = f"
  by (simp add: preSave_def)

lemma preSave_fields:
  "fid (preSave n r f) = fid f" "student (preSave n r f) = student f"
  "course (preSave n r f) = course f" "status (preSave n r f) = status f"
  "rating (preSave n r f) = rating f" "message (preSave n r f) = message f"
  "isAnonymous (preSave n r f) = isAnonymous f" "createdAt (preSave n r f) = createdAt f"
  "moderatorNotes (preSave n r f) = moderatorNotes f" "updatedAt (preSave n r f) = updatedAt f"
  "versionKey (preSave n r f) = versionKey f"
  by (simp_all add: preSave_def)

lemma applyBody_fields:
  "fid (applyBody body f) = fid f" "student (applyBody body f) = student f"
  "course (applyBody body f) = course f" "status (applyBody body f) = status f"
  "createdAt (applyBody body f) = createdAt f"
  "moderatorNotes (applyBody body f) = moderatorNotes f"
  "updatedAt (applyBody body f) = updatedAt f" "versionKey (applyBody body f) = versionKey f"
  by (simp_all add: applyBody_def Let_def split: option.splits)

lemma findOneByPair_None:
  "findOneByPair fs s c = None \<longleftrightarrow> \<not> (\<exists>f \<in> set fs. student f = s \<and> course f = c)"
  by (auto simp: findOneByPair_def find_None_iff)

lemma createFeedback_Inr:
  assumes "createFeedback fs f = Inr (g, fs')"
  shows "fs' = fs @ [g]" and "pairOf g = pairOf f" and "pairOf f \<notin> set (map pairOf fs)"
proof -
  from assms have g: "g = preSave True False f" and fs': "fs' = fs @ [g]"
    and nd: "\<not> list_ex (\<lambda>h. fid h = fid g \<or> (student h = student g \<and> course h = course g)) fs"
    by (auto simp: createFeedback_def Let_def split: if_splits)
  show "fs' = fs @ [g]" by (rule fs')
  show p: "pairOf g = pairOf f" using g by (simp add: pairOf_def preSave_fields)
  show "pairOf f \<notin> set (map pairOf fs)"
    using nd p by (auto simp: list_ex_iff pairOf_def)
qed

text \<open>Every answer of \<open>POST /api/feedback\<close>: a failure with the collection as it was, or
  the new document, appended, for a pair that no stored document carries.\<close>

lemma submitFeedback_cases:
  "(\<exists>e. submitFeedback cs fs u newId now body = (Inl e, fs)) \<or>
   (\<exists>g. submitFeedback cs fs u newId now body = (Inr g, fs @ [g]) \<and>
        student g = u \<and> b_course body = Some (course g) \<and> pairOf g \<notin> set (map pairOf fs))"
proof (cases "validateSubmit body")
  case None
  then show ?thesis by (simp add: submitFeedback_def)
next
  case (Some v)
  obtain c r m where v: "v = (c, r, m)" by (cases v)
  have bc: "b_course body = Some c"
    using Some v by (auto simp: validateSubmit_def split: option.splits if_splits)
  let ?f = "\<lparr>fid = newId, student = u, course = c, rating = r, message = m,
             isAnonymous = (case b_isAnonymous body of None \<Rightarrow> False | Some a \<Rightarrow> a),
             tags = map tagSetter (case b_tags body of None \<Rightarrow> [] | Some ts \<Rightarrow> ts),
             status = Approved, moderatorNotes = None, createdAt = now,
             updatedAt = now, versionKey = 0\<rparr>"
  show ?thesis
  proof (cases "createFeedback fs ?f")
    case (Inl e)
    then show ?thesis
      using Some v
      by (cases e) (simp_all add: submitFeedback_def split: option.splits)
  next
    case (Inr p)
    obtain g fs' where p: "p = (g, fs')" by (cases p)
    from createFeedback_Inr [OF Inr [unfolded p]]
    have fs': "fs' = fs @ [g]" and pg: "pairOf g = pairOf ?f"
      and fresh: "pairOf ?f \<notin> set (map pairOf fs)" by blast+
    from pg have sg: "student g = u" and cg: "course g = c" by (simp_all add: pairOf_def)
    have "submitFeedback cs fs u newId now body = (Inr g, fs @ [g]) \<or>
          (\<exists>e. submitFeedback cs fs u newId now body = (Inl e, fs))"
      using Some v Inr p fs'
      by (simp add: submitFeedback_def split: option.splits)
    then show ?thesis using sg cg bc fresh pg by auto
  qed
qed

text \<open>
  Claim C1. A submission that passes the validators and names an existing, active course
  (a valid submission), made when the collection already holds a document for the same
  student and course, is answered with the duplicate failure and stores nothing. Whatever
  the body, a submission for a pair that is already present fails and leaves the
  collection as it is, and a collection without a repeated pair stays so after any
  submission.
\<close>

theorem submitFeedback_duplicate_conflict:
  "(validateSubmit body = Some (c, r, m) \<and> findById cid cs c = Some d \<and> isActive d \<and>
      (\<exists>f \<in> set fs. student f = u \<and> course f = c)
      \<longrightarrow> submitFeedback cs fs u newId now body =
            (Inl (Failure 400 ''You have already submitted feedback for this course''), fs)) \<and>
   ((\<exists>f \<in> set fs. student f = u \<and> b_course body = Some (course f))
      \<longrightarrow> (\<exists>e. submitFeedback cs fs u newId now body = (Inl e, fs))) \<and>
   (uniquePairs fs \<longrightarrow> uniquePairs (snd (submitFeedback cs fs u newId now body)))"
proof (intro conjI impI)
  assume a: "validateSubmit body = Some (c, r, m) \<and> findById cid cs c = Some d \<and> isActive d \<and>
      (\<exists>f \<in> set fs. student f = u \<and> course f = c)"
  then have "findOneByPair fs u c \<noteq> None" by (simp add: findOneByPair_None)
  with a show "submitFeedback cs fs u newId now body =
            (Inl (Failure 400 ''You have already submitted feedback for this course''), fs)"
    by (simp add: submitFeedback_def duplicateFailure_def)
next
  assume "\<exists>f \<in> set fs. student f = u \<and> b_course body = Some (course f)"
  then obtain f where f: "f \<in> set fs" "student f = u" "b_course body = Some (course f)" by blast
  from submitFeedback_cases [of cs fs u newId now body]
  show "\<exists>e. submitFeedback cs fs u newId now body = (Inl e, fs)"
  proof
    assume "\<exists>e. submitFeedback cs fs u newId now body = (Inl e, fs)"
    then show ?thesis .
  next
    assume "\<exists>g. submitFeedback cs fs u newId now body = (Inr g, fs @ [g]) \<and>
        student g = u \<and> b_course body = Some (course g) \<and> pairOf g \<notin> set (map pairOf fs)"
    then obtain g where "student g = u" "b_course body = Some (course g)"
      "pairOf g \<notin> set (map pairOf fs)" by blast
    with f have "pairOf f = pairOf g" "pairOf g \<notin> pairOf ` set fs" by (simp_all add: pairOf_def)
    with f(1) have False by (metis imageI)
    then show ?thesis ..
  qed
next
  assume u: "uniquePairs fs"
  from submitFeedback_cases [of cs fs u newId now body]
  show "uniquePairs (snd (submitFeedback cs fs u newId now body))"
    using u by (auto simp: uniquePairs_def)
qed

theorem submitFeedback_duplicate_conflict_witness:
  "validateSubmit exBody = Some (1, 1, ''Needed more lab sessions.'') \<and>
   findById cid [exCourse] 1 = Some exCourse \<and> isActive exCourse \<and>
   student (exFeedback 10 2 5 Approved) = 2 \<and> course (exFeedback 10 2 5 Approved) = 1 \<and>
   uniquePairs exStore \<and>
   submitFeedback [exCourse] exStore 2 99 0 exBody =
     (Inl (Failure 400 ''You have already submitted feedback for this course''), exStore)"
proof -
  have v: "validateSubmit exBody = Some (1, 1, ''Needed more lab sessions.'')"
    by (simp add: validateSubmit_def exBody_def ratingOk_def messageOk_def trim_def isSpace_def)
  have c: "findById cid [exCourse] 1 = Some exCourse" "isActive exCourse"
    by (simp_all add: findById_def exCourse_def)
  have f: "exFeedback 10 2 5 Approved \<in> set exStore" by (simp add: exStore_def)
  have sc: "student (exFeedback 10 2 5 Approved) = 2" "course (exFeedback 10 2 5 Approved) = 1"
    by (simp_all add: exFeedback_def)
  have up: "uniquePairs exStore"
    by (simp add: uniquePairs_def pairOf_def exStore_def exFeedback_def)
  have ex: "\<exists>f \<in> set exStore. student f = 2 \<and> course f = 1" using f sc by blast
  show ?thesis
    using v c sc up ex
      submitFeedback_duplicate_conflict [of exBody 1 1 "''Needed more lab sessions.''" "[exCourse]"
        exCourse exStore 2 99 0]
    by simp
qed

lemma applyBody_frame:
  "(applyBody body f)\<lparr>rating := rating f, message := message f,
      isAnonymous := isAnonymous f, tags := tags f\<rparr> = f"
  by (simp add: applyBody_def Let_def split: option.splits)

text \<open>A save writes the document in place; besides the tag that the hook may add, it
  changes the \<open>updatedAt\<close> timestamp and the version key at most.\<close>

lemma saveFeedback_Inr:
  assumes "saveFeedback fs now f0 f = Inr (g, fs')"
  shows "fs' = replaceBy fid g fs"
    and "g\<lparr>tags := tags f, updatedAt := updatedAt f, versionKey := versionKey f\<rparr> = f"
    and "updatedAt g = updatedAt f \<or> updatedAt g = now"
    and "versionKey g = versionKey f \<or> versionKey g = versionKey f + 1"
proof -
  define f1 where "f1 = (if isModified f0 f then f\<lparr>updatedAt := now\<rparr> else f)"
  define f2 where "f2 = preSave False (rating f \<noteq> rating f0) f1"
  from assms have g: "g = (if tags f \<noteq> tags f0 \<or> tags f2 \<noteq> tags f
                           then f2\<lparr>versionKey := versionKey f2 + 1\<rparr> else f2)"
    and w: "fs' = replaceBy fid g fs"
    by (auto simp: saveFeedback_def Let_def f1_def f2_def split: if_splits)
  show "fs' = replaceBy fid g fs" by (rule w)
  have f1: "f1\<lparr>updatedAt := updatedAt f\<rparr> = f" by (simp add: f1_def)
  have f2: "f2\<lparr>tags := tags f1\<rparr> = f1" unfolding f2_def by (rule preSave_frame)
  have t1: "tags f1 = tags f" by (simp add: f1_def)
  have "g\<lparr>versionKey := versionKey f2\<rparr> = f2" by (simp add: g)
  then have "g\<lparr>versionKey := versionKey f2\<rparr>\<lparr>tags := tags f1\<rparr>\<lparr>updatedAt := updatedAt f\<rparr> = f"
    by (simp only: f2 f1)
  moreover have "versionKey f2 = versionKey f"
    by (simp add: f2_def f1_def preSave_fields)
  ultimately show "g\<lparr>tags := tags f, updatedAt := updatedAt f, versionKey := versionKey f\<rparr> = f"
    using t1 by (cases g, cases f) auto
  show "updatedAt g = updatedAt f \<or> updatedAt g = now"
    by (simp add: g f2_def f1_def preSave_fields)
  show "versionKey g = versionKey f \<or> versionKey g = versionKey f + 1"
    by (simp add: g f2_def f1_def preSave_fields)
qed

text \<open>Every answer of \<open>PUT /api/feedback/:id\<close> to the owner of the document: a failure
  with the collection as it was, or the saved document written in place of the old one.\<close>

lemma updateFeedback_owner_cases:
  assumes "findById fid fs i = Some f" and "student f = u"
  shows "(\<exists>e. updateFeedback fs u i now body = (Inl e, fs)) \<or>
         (\<exists>g. updateFeedback fs u i now body = (Inr g, replaceBy fid g fs) \<and>
              g\<lparr>rating := rating f, message := message f, isAnonymous := isAnonymous f,
                tags := tags f, updatedAt := updatedAt f, versionKey := versionKey f\<rparr> = f \<and>
              (updatedAt g = updatedAt f \<or> updatedAt g = now) \<and>
              (versionKey g = versionKey f \<or> versionKey g = versionKey f + 1))"
proof (cases "updateValid body")
  case False
  then show ?thesis by (simp add: updateFeedback_def)
next
  case True
  let ?f' = "applyBody body f"
  show ?thesis
  proof (cases "saveFeedback fs now f ?f'")
    case (Inl e)
    then show ?thesis using True assms by (simp add: updateFeedback_def)
  next
    case (Inr p)
    obtain g fs' where p: "p = (g, fs')" by (cases p)
    note s = saveFeedback_Inr [OF Inr [unfolded p]]
    have upd: "updateFeedback fs u i now body = (Inr g, replaceBy fid g fs)"
      using True assms Inr p s(1) by (simp add: updateFeedback_def)
    have "g\<lparr>tags := tags ?f', updatedAt := updatedAt f, versionKey := versionKey f\<rparr> = ?f'"
      using s(2) by (simp add: applyBody_fields)
    then have "g\<lparr>tags := tags ?f', updatedAt := updatedAt f, versionKey := versionKey f\<rparr>
        \<lparr>rating := rating f, message := message f, isAnonymous := isAnonymous f,
         tags := tags f\<rparr> = f"
      by (simp only: applyBody_frame)
    then have frame: "g\<lparr>rating := rating f, message := message f, isAnonymous := isAnonymous f,
        tags := tags f, updatedAt := updatedAt f, versionKey := versionKey f\<rparr> = f"
      by (cases g, cases f) auto
    have "updatedAt g = updatedAt f \<or> updatedAt g = now"
      "versionKey g = versionKey f \<or> versionKey g = versionKey f + 1"
      using s(3,4) by (simp_all add: applyBody_fields)
    with upd frame show ?thesis by blast
  qed
qed

text \<open>
  The other two routes that write the collection keep the pairs distinct as well: an update
  writes a document with the pair of the one it replaces, a delete removes a document.
\<close>

lemma map_pairOf_replaceBy:
  "findById fid fs (fid g) = Some f \<Longrightarrow> pairOf g = pairOf f \<Longrightarrow>
   map pairOf (replaceBy fid g fs) = map pairOf fs"
  by (induction fs) (auto simp: findById_def split: if_splits)

lemma frame_fields:
  assumes "g\<lparr>rating := r, message := m, isAnonymous := a, tags := ts, updatedAt := t,
             versionKey := v\<rparr> = f"
  shows "fid g = fid f" "student g = student f" "course g = course f" "status g = status f"
    "moderatorNotes g = moderatorNotes f" "createdAt g = createdAt f"
proof -
  let ?h = "g\<lparr>rating := r, message := m, isAnonymous := a, tags := ts, updatedAt := t,
             versionKey := v\<rparr>"
  have "fid ?h = fid f" "student ?h = student f" "course ?h = course f" "status ?h = status f"
    "moderatorNotes ?h = moderatorNotes f" "createdAt ?h = createdAt f"
    using assms by (simp_all only:)
  then show "fid g = fid f" "student g = student f" "course g = course f" "status g = status f"
    "moderatorNotes g = moderatorNotes f" "createdAt g = createdAt f"
    by simp_all
qed

lemma updateFeedback_uniquePairs:
  assumes "uniquePairs fs"
  shows "uniquePairs (snd (updateFeedback fs u i now body))"
proof (cases "findById fid fs i")
  case None
  then show ?thesis using assms by (simp add: updateFeedback_def)
next
  case (Some f)
  show ?thesis
  proof (cases "student f = u")
    case False
    then show ?thesis using assms Some by (simp add: updateFeedback_def)
  next
    case True
    have k: "fid f = i" using Some by (rule findById_key)
    from updateFeedback_owner_cases [OF Some True, of now body]
    show ?thesis
    proof
      assume "\<exists>e. updateFeedback fs u i now body = (Inl e, fs)"
      then show ?thesis using assms by auto
    next
      assume "\<exists>g. updateFeedback fs u i now body = (Inr g, replaceBy fid g fs) \<and>
              g\<lparr>rating := rating f, message := message f, isAnonymous := isAnonymous f,
                tags := tags f, updatedAt := updatedAt f, versionKey := versionKey f\<rparr> = f \<and>
              (updatedAt g = updatedAt f \<or> updatedAt g = now) \<and>
              (versionKey g = versionKey f \<or> versionKey g = versionKey f + 1)"
      then obtain g where r: "snd (updateFeedback fs u i now body) = replaceBy fid g fs"
        and fr: "g\<lparr>rating := rating f, message := message f, isAnonymous := isAnonymous f,
                tags := tags f, updatedAt := updatedAt f, versionKey := versionKey f\<rparr> = f"
        by auto
      note ff = frame_fields [OF fr]
      have "findById fid fs (fid g) = Some f" using Some k ff(1) by simp
      moreover have "pairOf g = pairOf f" using ff(2,3) by (simp add: pairOf_def)
      ultimately have "map pairOf (replaceBy fid g fs) = map pairOf fs"
        by (rule map_pairOf_replaceBy)
      then show ?thesis using assms r by (simp add: uniquePairs_def)
    qed
  qed
qed

lemma distinct_map_deleteBy:
  "distinct (map h ds) \<Longrightarrow> distinct (map h (deleteBy key i ds))"
proof (induction ds)
  case Nil
  then show ?case by simp
next
  case (Cons e es)
  have "set (deleteBy key i es) \<subseteq> set es" by (induction es) auto
  with Cons show ?case by auto
qed

lemma deleteFeedback_uniquePairs:
  "uniquePairs fs \<Longrightarrow> uniquePairs (snd (deleteFeedback fs u i))"
  by (auto simp: deleteFeedback_def uniquePairs_def distinct_map_deleteBy split: option.splits)

text \<open>
  Claim C6, as the code has it. For a stored document and a student who is not its owner,
  an update whose body passes the validators is answered with 403 and every update, valid
  or not, fails and leaves the collection as it is; a delete is answered with 403 and
  leaves the collection as it is.
\<close>

theorem nonowner_update_delete_forbidden:
  assumes "findById fid fs i = Some f" and "student f \<noteq> u"
  shows "(updateValid body \<longrightarrow> updateFeedback fs u i now body =
            (Inl (Failure 403 ''Not authorized to update this feedback''), fs)) \<and>
         (\<exists>e. updateFeedback fs u i now body = (Inl e, fs)) \<and>
         deleteFeedback fs u i =
            (Inl (Failure 403 ''Not authorized to delete this feedback''), fs)"
  using assms by (simp add: updateFeedback_def deleteFeedback_def)

theorem nonowner_update_delete_forbidden_witness:
  "findById fid exStore 10 = Some (exFeedback 10 2 5 Approved) \<and>
   student (exFeedback 10 2 5 Approved) \<noteq> 3 \<and> updateValid exBody \<and>
   updateFeedback exStore 3 10 1000 exBody =
     (Inl (Failure 403 ''Not authorized to update this feedback''), exStore) \<and>
   deleteFeedback exStore 3 10 =
     (Inl (Failure 403 ''Not authorized to delete this feedback''), exStore)"
proof -
  have f: "findById fid exStore 10 = Some (exFeedback 10 2 5 Approved)"
    by (simp add: findById_def exStore_def exFeedback_def)
  have o: "student (exFeedback 10 2 5 Approved) \<noteq> 3" by (simp add: exFeedback_def)
  have v: "updateValid exBody"
    by (simp add: updateValid_def exBody_def ratingOk_def messageOk_def trim_def isSpace_def)
  show ?thesis
    using f o v nonowner_update_delete_forbidden [OF f o, of exBody 1000] by simp
qed

text \<open>
  Claim C6 as the specification words it fails on a body that the validators reject:
  student 3 asks to set the rating of student 2's feedback to 9 and is answered with
  400 \<open>Validation failed\<close>, since the validators run before the ownership check.
\<close>

theorem nonowner_update_invalid_body:
  "findById fid exStore 10 = Some (exFeedback 10 2 5 Approved) \<and>
   student (exFeedback 10 2 5 Approved) \<noteq> 3 \<and>
   updateFeedback exStore 3 10 1000 exBadBody =
     (Inl (Failure 400 ''Validation failed''), exStore) \<and>
   fst (updateFeedback exStore 3 10 1000 exBadBody) \<noteq>
     Inl (Failure 403 ''Not authorized to update this feedback'')"
  by (simp add: updateFeedback_def updateValid_def exBadBody_def ratingOk_def findById_def
      exStore_def exFeedback_def)

text \<open>
  Claim C10, as the code has it. After any update request of the owner, whatever its
  body, the stored document differs from the old one at most in \<open>rating\<close>, \<open>message\<close>,
  \<open>isAnonymous\<close> and \<open>tags\<close> and in the two paths that the save maintains: \<open>updatedAt\<close>,
  which stays or becomes the time of the request, and the version key, which stays or
  grows by one. Its student, course and status are unchanged, and every other document of
  the collection is found as before.
\<close>

theorem updateFeedback_frame:
  assumes "findById fid fs i = Some f" and "student f = u"
  shows "\<exists>g. findById fid (snd (updateFeedback fs u i now body)) i = Some g \<and>
             g\<lparr>rating := rating f, message := message f, isAnonymous := isAnonymous f,
               tags := tags f, updatedAt := updatedAt f, versionKey := versionKey f\<rparr> = f \<and>
             student g = student f \<and> course g = course f \<and> status g = status f \<and>
             (updatedAt g = updatedAt f \<or> updatedAt g = now) \<and>
             (versionKey g = versionKey f \<or> versionKey g = versionKey f + 1) \<and>
             (\<forall>j. j \<noteq> i \<longrightarrow>
                findById fid (snd (updateFeedback fs u i now body)) j = findById fid fs j)"
proof -
  have k: "fid f = i" using assms(1) by (rule findById_key)
  from updateFeedback_owner_cases [OF assms, of now body]
  show ?thesis
  proof
    assume "\<exists>e. updateFeedback fs u i now body = (Inl e, fs)"
    then have "snd (updateFeedback fs u i now body) = fs" by auto
    then show ?thesis using assms(1) by simp
  next
    assume "\<exists>g. updateFeedback fs u i now body = (Inr g, replaceBy fid g fs) \<and>
              g\<lparr>rating := rating f, message := message f, isAnonymous := isAnonymous f,
                tags := tags f, updatedAt := updatedAt f, versionKey := versionKey f\<rparr> = f \<and>
              (updatedAt g = updatedAt f \<or> updatedAt g = now) \<and>
              (versionKey g = versionKey f \<or> versionKey g = versionKey f + 1)"
    then obtain g where r: "snd (updateFeedback fs u i now body) = replaceBy fid g fs"
      and fr: "g\<lparr>rating := rating f, message := message f, isAnonymous := isAnonymous f,
                tags := tags f, updatedAt := updatedAt f, versionKey := versionKey f\<rparr> = f"
      and ts: "updatedAt g = updatedAt f \<or> updatedAt g = now"
      and vs: "versionKey g = versionKey f \<or> versionKey g = versionKey f + 1"
      by auto
    note ff = frame_fields [OF fr]
    have kg: "fid g = i" using k ff(1) by simp
    have "findById fid fs (fid g) = Some f" using assms(1) kg by simp
    then have "findById fid (replaceBy fid g fs) (fid g) = Some g"
      by (rule findById_replaceBy_same)
    then have found: "findById fid (snd (updateFeedback fs u i now body)) i = Some g"
      using r kg by simp
    have others: "\<forall>j. j \<noteq> i \<longrightarrow>
        findById fid (snd (updateFeedback fs u i now body)) j = findById fid fs j"
      using r kg by (simp add: findById_replaceBy_other)
    show ?thesis using found fr ff(2,3,4) ts vs others by blast
  qed
qed

theorem updateFeedback_frame_witness:
  "findById fid exStore 10 = Some (exFeedback 10 2 5 Approved) \<and>
   student (exFeedback 10 2 5 Approved) = 2 \<and>
   findById fid (snd (updateFeedback exStore 2 10 1000 exBody)) 10 =
     Some ((exFeedback 10 2 1 Approved)
        \<lparr>message := ''Needed more lab sessions.'', tags := [''labs'', ''needs-improvement''],
         updatedAt := 1000, versionKey := 1\<rparr>)"
proof -
  have f: "findById fid exStore 10 = Some (exFeedback 10 2 5 Approved)"
    by (simp add: findById_def exStore_def exFeedback_def)
  have o: "student (exFeedback 10 2 5 Approved) = 2" by (simp add: exFeedback_def)
  have a: "applyBody exBody (exFeedback 10 2 5 Approved) =
      (exFeedback 10 2 1 Approved)\<lparr>message := ''Needed more lab sessions.'', tags := [''labs'']\<rparr>"
    by (simp add: applyBody_def exBody_def exFeedback_def trim_def isSpace_def tagSetter_def
        toLowerChar_def Let_def)
  have v: "updateValid exBody"
    by (simp add: updateValid_def exBody_def ratingOk_def messageOk_def trim_def isSpace_def)
  have e: "updateFeedback exStore 2 10 1000 exBody =
      (Inr ((exFeedback 10 2 1 Approved)
         \<lparr>message := ''Needed more lab sessions.'', tags := [''labs'', ''needs-improvement''],
          updatedAt := 1000, versionKey := 1\<rparr>),
       replaceBy fid ((exFeedback 10 2 1 Approved)
         \<lparr>message := ''Needed more lab sessions.'', tags := [''labs'', ''needs-improvement''],
          updatedAt := 1000, versionKey := 1\<rparr>)
         exStore)"
    using f o v a
    by (simp add: updateFeedback_def saveFeedback_def schemaValid_def preSave_def isModified_def
        pushIfMissing_def exFeedback_def Let_def)
  have r: "findById fid (replaceBy fid ((exFeedback 10 2 1 Approved)
         \<lparr>message := ''Needed more lab sessions.'', tags := [''labs'', ''needs-improvement''],
          updatedAt := 1000, versionKey := 1\<rparr>)
         exStore) 10 = Some ((exFeedback 10 2 1 Approved)
         \<lparr>message := ''Needed more lab sessions.'', tags := [''labs'', ''needs-improvement''],
          updatedAt := 1000, versionKey := 1\<rparr>)"
    by (simp add: findById_def exStore_def exFeedback_def)
  show ?thesis
    using f o e r updateFeedback_frame [OF f o, of 1000 exBody] by simp
qed

text \<open>
  Claim C10 as the specification words it fails on the timestamp: when student 2 updates
  the own feedback 10 at time 1000, the stored document has \<open>updatedAt = 1000\<close> and the
  version key 1 where the old one had 0 and 0, so setting the four fields of the request
  back does not give the old document.
\<close>

theorem updateFeedback_rewrites_updatedAt:
  "findById fid exStore 10 = Some (exFeedback 10 2 5 Approved) \<and>
   student (exFeedback 10 2 5 Approved) = 2 \<and>
   findById fid (snd (updateFeedback exStore 2 10 1000 exBody)) 10 =
     Some ((exFeedback 10 2 1 Approved)
        \<lparr>message := ''Needed more lab sessions.'', tags := [''labs'', ''needs-improvement''],
         updatedAt := 1000, versionKey := 1\<rparr>) \<and>
   (exFeedback 10 2 1 Approved)
        \<lparr>message := ''Needed more lab sessions.'', tags := [''labs'', ''needs-improvement''],
         updatedAt := 1000, versionKey := 1\<rparr>
        \<lparr>rating := rating (exFeedback 10 2 5 Approved),
         message := message (exFeedback 10 2 5 Approved),
         isAnonymous := isAnonymous (exFeedback 10 2 5 Approved),
         tags := tags (exFeedback 10 2 5 Approved)\<rparr> \<noteq> exFeedback 10 2 5 Approved \<and>
   updatedAt (exFeedback 10 2 5 Approved) = 0"
proof -
  have f: "findById fid exStore 10 = Some (exFeedback 10 2 5 Approved)"
    by (simp add: findById_def exStore_def exFeedback_def)
  have o: "student (exFeedback 10 2 5 Approved) = 2" by (simp add: exFeedback_def)
  have a: "applyBody exBody (exFeedback 10 2 5 Approved) =
      (exFeedback 10 2 1 Approved)\<lparr>message := ''Needed more lab sessions.'', tags := [''labs'']\<rparr>"
    by (simp add: applyBody_def exBody_def exFeedback_def trim_def isSpace_def tagSetter_def
        toLowerChar_def Let_def)
  have v: "updateValid exBody"
    by (simp add: updateValid_def exBody_def ratingOk_def messageOk_def trim_def isSpace_def)
  have e: "snd (updateFeedback exStore 2 10 1000 exBody) =
       replaceBy fid ((exFeedback 10 2 1 Approved)
         \<lparr>message := ''Needed more lab sessions.'', tags := [''labs'', ''needs-improvement''],
          updatedAt := 1000, versionKey := 1\<rparr>)
         exStore"
    using f o v a
    by (simp add: updateFeedback_def saveFeedback_def schemaValid_def preSave_def isModified_def
        pushIfMissing_def exFeedback_def Let_def)
  have r: "findById fid (snd (updateFeedback exStore 2 10 1000 exBody)) 10 =
     Some ((exFeedback 10 2 1 Approved)
        \<lparr>message := ''Needed more lab sessions.'', tags := [''labs'', ''needs-improvement''],
         updatedAt := 1000, versionKey := 1\<rparr>)"
    unfolding e by (simp add: findById_def exStore_def exFeedback_def)
  have d: "(exFeedback 10 2 1 Approved)
        \<lparr>message := ''Needed more lab sessions.'', tags := [''labs'', ''needs-improvement''],
         updatedAt := 1000, versionKey := 1\<rparr>
        \<lparr>rating := rating (exFeedback 10 2 5 Approved),
         message := message (exFeedback 10 2 5 Approved),
         isAnonymous := isAnonymous (exFeedback 10 2 5 Approved),
         tags := tags (exFeedback 10 2 5 Approved)\<rparr> \<noteq> exFeedback 10 2 5 Approved"
    by (simp add: exFeedback_def)
  have z: "updatedAt (exFeedback 10 2 5 Approved) = 0" by (simp add: exFeedback_def)
  show ?thesis using f o r d z by blast
qed

end
